theory Spec2Isabelle
  imports Complex_Main
begin

section \<open>JavaScript numbers and the DECIMAL(10,2) columns\<close>

text \<open>
  The order service is TypeScript: every \<^verbatim>\<open>number\<close> is an IEEE-754 binary64 value.
  A finite binary64 value is represented by the rational it denotes, and the result of an
  arithmetic operation is the exact result rounded to the nearest representable value, ties
  to even (\<open>fl\<close>). Overflow to \<^verbatim>\<open>Infinity\<close> (magnitudes of \<open>2^1024\<close> and more) is
  not represented; the request validation keeps every operand below \<open>2^53\<close>.
\<close>

type_synonym number = rat

function bitlen :: "int \<Rightarrow> nat" where
  "bitlen n = (if n \<le> 0 then 0 else Suc (bitlen (n div 2)))"
  by pat_completeness auto
termination
  by (relation "measure nat") auto

declare bitlen.simps [simp del]

definition pow2 :: "int \<Rightarrow> rat" where
  "pow2 e = (if 0 \<le> e then 2 ^ nat e else 1 / 2 ^ nat (- e))"

text \<open>
  \<open>ilog2 x\<close> is the binary exponent of a positive rational, \<open>2^e \<le> x < 2^(e+1)\<close>: the
  bit length of the integer part when \<open>1 \<le> x\<close>, and of the rounded-up reciprocal otherwise.
\<close>

definition ilog2 :: "rat \<Rightarrow> int" where
  "ilog2 x = (if 1 \<le> x then int (bitlen \<lfloor>x\<rfloor>) - 1 else - int (bitlen (\<lceil>1 / x\<rceil> - 1)))"

definition roundTiesToEven :: "rat \<Rightarrow> int" where
  "roundTiesToEven y =
     (let f = \<lfloor>y\<rfloor>; r = y - of_int f
      in if r < 1 / 2 then f else if 1 / 2 < r then f + 1 else if even f then f else f + 1)"

text \<open>Rounding to binary64: 53 significant bits, smallest exponent \<open>-1074\<close> (subnormals).\<close>

definition fl :: "rat \<Rightarrow> number" where
  "fl x = (if x = 0 then 0
           else let e = max (ilog2 \<bar>x\<bar> - 52) (- 1074)
                in sgn x * of_int (roundTiesToEven (\<bar>x\<bar> / pow2 e)) * pow2 e)"

text \<open>The operators \<^verbatim>\<open>*\<close>, \<^verbatim>\<open>+\<close> and \<^verbatim>\<open>/\<close> of the source.\<close>

definition js_mul :: "number \<Rightarrow> number \<Rightarrow> number" where
  "js_mul a b = fl (a * b)"

definition js_add :: "number \<Rightarrow> number \<Rightarrow> number" where
  "js_add a b = fl (a + b)"

definition js_div :: "number \<Rightarrow> number \<Rightarrow> number" where
  "js_div a b = fl (a / b)"

text \<open>\<^verbatim>\<open>Math.round\<close>: the nearest integer, a tie going up.\<close>

definition Math_round :: "number \<Rightarrow> int" where
  "Math_round y = \<lfloor>y + 1 / 2\<rfloor>"

datatype sql_error =
    StringTruncation
  | ArithmeticOverflow
  | IntOutOfRange
  | PrimaryKeyViolation
  | UniqueKeyViolation
  | ForeignKeyViolation
  | InvalidOffsetFetch

text \<open>
  A value bound as \<^verbatim>\<open>sql.Decimal(10, 2)\<close> and written to a \<^verbatim>\<open>DECIMAL(10,2)\<close> column
  (schema of \<^verbatim>\<open>initializeSchema\<close>) is kept with two fraction digits and at most ten digits
  in all. The conversion is the driver's, outside the repository: it scales the number by
  \<open>10^2\<close> in binary64 and rounds with \<^verbatim>\<open>Math.round\<close>; a value that needs more than ten
  digits is refused. Read back, the column arrives as the binary64 value nearest to the
  stored decimal.
\<close>

definition sql_Decimal_10_2 :: "number \<Rightarrow> sql_error + rat" where
  "sql_Decimal_10_2 x =
     (let k = Math_round (js_mul \<bar>x\<bar> 100)
      in if k < 10 ^ 10 then Inr (sgn x * of_int k / 100) else Inl ArithmeticOverflow)"

definition read_Decimal :: "rat \<Rightarrow> number" where
  "read_Decimal d = fl d"

text \<open>A value bound as \<^verbatim>\<open>sql.Int\<close>: a 32-bit signed integer.\<close>

definition int32 :: "int \<Rightarrow> bool" where
  "int32 i = (- (2 ^ 31) \<le> i \<and> i < 2 ^ 31)"

definition sql_Int :: "number \<Rightarrow> sql_error + int" where
  "sql_Int x = (if x = of_int \<lfloor>x\<rfloor> \<and> int32 \<lfloor>x\<rfloor> then Inr \<lfloor>x\<rfloor> else Inl IntOutOfRange)"

text \<open>A string fits a column \<^verbatim>\<open>NVARCHAR(n)\<close> when it has at most \<open>n\<close> code units.\<close>

definition nvarchar :: "nat \<Rightarrow> string \<Rightarrow> bool" where
  "nvarchar n s = (length s \<le> n)"


section \<open>Strings\<close>

function string_of_nat :: "nat \<Rightarrow> string" where
  "string_of_nat n =
     (if n < 10 then [''0123456789'' ! n]
      else string_of_nat (n div 10) @ [''0123456789'' ! (n mod 10)])"
  by pat_completeness auto
termination
  by (relation "measure id") auto

declare string_of_nat.simps [simp del]

definition toUpperCase :: "string \<Rightarrow> string" where
  "toUpperCase s =
     map (\<lambda>c. case map_of (zip ''abcdefghijklmnopqrstuvwxyz'' ''ABCDEFGHIJKLMNOPQRSTUVWXYZ'') c of
                 None \<Rightarrow> c | Some u \<Rightarrow> u) s"

definition substr :: "nat \<Rightarrow> nat \<Rightarrow> string \<Rightarrow> string" where
  "substr start len s = take len (drop start s)"

fun starts_with :: "string \<Rightarrow> string \<Rightarrow> bool" where
  "starts_with [] s = True"
| "starts_with (p # ps) [] = False"
| "starts_with (p # ps) (c # cs) = (p = c \<and> starts_with ps cs)"

fun str_includes :: "string \<Rightarrow> string \<Rightarrow> bool" where
  "str_includes [] pat = (pat = [])"
| "str_includes (c # cs) pat = (starts_with pat (c # cs) \<or> str_includes cs pat)"


section \<open>The data model (DatabaseService.ts, ServiceBusService.ts)\<close>

datatype order_status = Pending | Processing | Shipped | Delivered | Cancelled

record OrderItem =
  item_id :: string
  orderId :: string
  productId :: string
  productName :: string
  quantity :: number
  unitPrice :: number
  totalPrice :: number

text \<open>
  A row of the table \<^verbatim>\<open>Orders\<close>; the interface \<^verbatim>\<open>Order\<close> adds the items. The field
  \<^verbatim>\<open>id\<close> is written \<open>id'\<close>. Timestamps are instants on a discrete clock.
\<close>

record order_row =
  id' :: string
  customerId :: string
  customerEmail :: string
  orderNumber :: string
  status :: order_status
  totalAmount :: number
  currency :: string
  shippingAddress :: string
  billingAddress :: string
  createdAt :: nat
  updatedAt :: nat

record Order = order_row +
  orderItems :: "OrderItem list"

text \<open>\<^verbatim>\<open>Omit<Order, 'id' | 'createdAt' | 'updatedAt'>\<close>, the argument of \<^verbatim>\<open>createOrder\<close>.\<close>

record order_data =
  d_customerId :: string
  d_customerEmail :: string
  d_orderNumber :: string
  d_status :: order_status
  d_totalAmount :: number
  d_currency :: string
  d_shippingAddress :: string
  d_billingAddress :: string
  d_orderItems :: "OrderItem list"

record OrderEvent =
  e_orderId :: string
  e_customerId :: string
  e_orderNumber :: string
  e_totalAmount :: "number option"
  e_currency :: "string option"
  e_oldStatus :: "string option"
  e_newStatus :: "order_status option"
  e_timestamp :: nat

datatype sql_stmt =
    BeginTransaction
  | Commit
  | Rollback
  | InsertOrders string
  | InsertOrderItems string
  | SelectOrderJoin string
  | SelectOrdersPage string int int
  | SelectCount string
  | SelectOrderItems string
  | UpdateOrders string order_status


datatype effect = Sql sql_stmt | Publish string OrderEvent

text \<open>
  What a request reads from outside the program: the clocks, the random sources, the
  identifiers the database generates (\<^verbatim>\<open>NEWID()\<close>, one per inserted row of a request)
  and the e-mail syntax check of the validation library.
\<close>

record env =
  Date_now :: nat
  new_Date :: nat
  Math_random :: string
  uuidv4 :: "nat \<Rightarrow> string"
  NEWID :: "nat \<Rightarrow> string"
  GETUTCDATE :: nat
  email_valid :: "string \<Rightarrow> bool"

text \<open>
  The state: the connection pool of the \<^verbatim>\<open>DatabaseService\<close> singleton (present or
  \<^verbatim>\<open>null\<close>), the two tables in insertion order, and the statements issued to the store
  and the events handed to the notifier so far.
\<close>

record world =
  pool :: bool
  Orders :: "order_row list"
  OrderItems :: "OrderItem list"
  trace :: "effect list"

datatype joi_rule =
    any_required
  | any_only
  | string_empty
  | string_email
  | string_length
  | number_unsafe
  | number_integer
  | number_min
  | number_max
  | number_positive
  | array_min
  | object_unknown

datatype joi_error = JoiError joi_rule "string list"

datatype error =
    ValidationError joi_error
  | BadRequestError string
  | NotFoundError string
  | Error string
  | TypeError string
  | RequestError sql_error

definition issue :: "sql_stmt \<Rightarrow> world \<Rightarrow> world" where
  "issue s w = w\<lparr>trace := trace w @ [Sql s]\<rparr>"

definition pool_error :: error where
  "pool_error = Error ''Database pool not initialized''"


section \<open>The order store (DatabaseService.ts)\<close>

text \<open>A row as the driver returns it: the decimal columns become numbers.\<close>

definition read_order_row :: "order_row \<Rightarrow> order_row" where
  "read_order_row r = r\<lparr>totalAmount := read_Decimal (totalAmount r)\<rparr>"

definition read_item_row :: "OrderItem \<Rightarrow> OrderItem" where
  "read_item_row i =
     i\<lparr>unitPrice := read_Decimal (unitPrice i), totalPrice := read_Decimal (totalPrice i)\<rparr>"

text \<open>
  The record set of \<^verbatim>\<open>Orders o LEFT JOIN OrderItems oi ON o.id = oi.orderId WHERE o.id = @orderId\<close>:
  one row per item of a matching order, or one row without item columns.
\<close>

definition left_join :: "order_row list \<Rightarrow> OrderItem list \<Rightarrow> string
    \<Rightarrow> (order_row \<times> OrderItem option) list" where
  "left_join os its oid =
     concat (map (\<lambda>r. case filter (\<lambda>i. orderId i = id' r) its of
                         [] \<Rightarrow> [(read_order_row r, None)]
                       | js \<Rightarrow> map (\<lambda>i. (read_order_row r, Some (read_item_row i))) js)
                 (filter (\<lambda>r. id' r = oid) os))"

fun joined_item :: "order_row \<times> OrderItem option \<Rightarrow> OrderItem list" where
  "joined_item (r, None) = []"
| "joined_item (r, Some i) =
     (if item_id i = [] then []
      else [\<lparr>item_id = item_id i, orderId = id' r, productId = productId i,
             productName = productName i, quantity = quantity i, unitPrice = unitPrice i,
             totalPrice = totalPrice i\<rparr>])"

definition with_items :: "order_row \<Rightarrow> OrderItem list \<Rightarrow> Order" where
  "with_items r its =
     \<lparr>id' = id' r, customerId = customerId r, customerEmail = customerEmail r,
      orderNumber = orderNumber r, status = status r, totalAmount = totalAmount r,
      currency = currency r, shippingAddress = shippingAddress r,
      billingAddress = billingAddress r, createdAt = createdAt r, updatedAt = updatedAt r,
      orderItems = its\<rparr>"

definition db_getOrderById :: "string \<Rightarrow> world \<Rightarrow> (error + Order option) \<times> world" where
  "db_getOrderById oid w =
     (if \<not> pool w then (Inl pool_error, w)
      else let recordset = left_join (Orders w) (OrderItems w) oid;
               w' = issue (SelectOrderJoin oid) w
           in case recordset of
                [] \<Rightarrow> (Inr None, w')
              | (orderData, _) # _ \<Rightarrow>
                  (Inr (Some (with_items orderData (concat (map joined_item recordset)))), w'))"

text \<open>
  \<^verbatim>\<open>INSERT INTO Orders ... OUTPUT INSERTED.*\<close> with the column types and the constraints of
  the schema: \<^verbatim>\<open>NVARCHAR(n)\<close> lengths, \<^verbatim>\<open>DECIMAL(10,2)\<close>, the primary key and the
  \<^verbatim>\<open>UNIQUE\<close> order number; \<^verbatim>\<open>id\<close>, \<^verbatim>\<open>createdAt\<close> and \<^verbatim>\<open>updatedAt\<close> take their
  column defaults.
\<close>

definition insert_Orders :: "env \<Rightarrow> order_data \<Rightarrow> world \<Rightarrow> (sql_error + order_row) \<times> world" where
  "insert_Orders env od w =
     (let w1 = issue (InsertOrders (d_orderNumber od)) w
      in if \<not> (nvarchar 255 (d_customerId od) \<and> nvarchar 255 (d_customerEmail od) \<and>
                nvarchar 50 (d_orderNumber od) \<and> nvarchar 3 (d_currency od))
         then (Inl StringTruncation, w1)
         else case sql_Decimal_10_2 (d_totalAmount od) of
                Inl e \<Rightarrow> (Inl e, w1)
              | Inr amount \<Rightarrow>
                  let r = \<lparr>id' = NEWID env 0, customerId = d_customerId od,
                           customerEmail = d_customerEmail od, orderNumber = d_orderNumber od,
                           status = d_status od, totalAmount = amount, currency = d_currency od,
                           shippingAddress = d_shippingAddress od,
                           billingAddress = d_billingAddress od,
                           createdAt = GETUTCDATE env, updatedAt = GETUTCDATE env\<rparr>
                  in if id' r \<in> set (map id' (Orders w)) then (Inl PrimaryKeyViolation, w1)
                     else if orderNumber r \<in> set (map orderNumber (Orders w))
                     then (Inl UniqueKeyViolation, w1)
                     else (Inr (read_order_row r), w1\<lparr>Orders := Orders w @ [r]\<rparr>))"

text \<open>\<^verbatim>\<open>INSERT INTO OrderItems\<close>: the item's own \<^verbatim>\<open>id\<close> and \<^verbatim>\<open>orderId\<close> are not sent.\<close>

definition insert_OrderItems :: "env \<Rightarrow> string \<Rightarrow> nat \<Rightarrow> OrderItem \<Rightarrow> world
    \<Rightarrow> (sql_error + unit) \<times> world" where
  "insert_OrderItems env oid k item w =
     (let w1 = issue (InsertOrderItems oid) w
      in if \<not> (nvarchar 255 (productId item) \<and> nvarchar 255 (productName item))
         then (Inl StringTruncation, w1)
         else case sql_Int (quantity item) of
                Inl e \<Rightarrow> (Inl e, w1)
              | Inr q \<Rightarrow>
                 (case sql_Decimal_10_2 (unitPrice item) of
                    Inl e \<Rightarrow> (Inl e, w1)
                  | Inr up \<Rightarrow>
                     (case sql_Decimal_10_2 (totalPrice item) of
                        Inl e \<Rightarrow> (Inl e, w1)
                      | Inr tp \<Rightarrow>
                          let row = \<lparr>item_id = NEWID env k, orderId = oid,
                                     productId = productId item, productName = productName item,
                                     quantity = of_int q, unitPrice = up, totalPrice = tp\<rparr>
                          in if item_id row \<in> set (map item_id (OrderItems w))
                             then (Inl PrimaryKeyViolation, w1)
                             else if oid \<notin> set (map id' (Orders w))
                             then (Inl ForeignKeyViolation, w1)
                             else (Inr (), w1\<lparr>OrderItems := OrderItems w @ [row]\<rparr>))))"

text \<open>The loop \<^verbatim>\<open>for (const item of order.orderItems)\<close>; it stops at the first failure.\<close>

fun insert_items :: "env \<Rightarrow> string \<Rightarrow> nat \<Rightarrow> OrderItem list \<Rightarrow> world
    \<Rightarrow> (sql_error + unit) \<times> world" where
  "insert_items env oid k [] w = (Inr (), w)"
| "insert_items env oid k (item # items) w =
     (case insert_OrderItems env oid k item w of
        (Inl e, w') \<Rightarrow> (Inl e, w')
      | (Inr _, w') \<Rightarrow> insert_items env oid (Suc k) items w')"

definition rollback :: "world \<Rightarrow> world \<Rightarrow> world" where
  "rollback w0 w = issue Rollback (w\<lparr>Orders := Orders w0, OrderItems := OrderItems w0\<rparr>)"

definition db_createOrder :: "env \<Rightarrow> order_data \<Rightarrow> world \<Rightarrow> (error + Order option) \<times> world" where
  "db_createOrder env order w =
     (if \<not> pool w then (Inl pool_error, w)
      else case insert_Orders env order (issue BeginTransaction w) of
             (Inl e, w1) \<Rightarrow> (Inl (RequestError e), rollback w w1)
           | (Inr createdOrder, w1) \<Rightarrow>
              (case insert_items env (id' createdOrder) 1 (d_orderItems order) w1 of
                 (Inl e, w2) \<Rightarrow> (Inl (RequestError e), rollback w w2)
               | (Inr _, w2) \<Rightarrow> db_getOrderById (id' createdOrder) (issue Commit w2)))"

text \<open>
  The loop of \<^verbatim>\<open>getOrdersByCustomer\<close> that loads the items of each order of the page.
\<close>

fun load_items :: "order_row list \<Rightarrow> world \<Rightarrow> Order list \<times> world" where
  "load_items [] w = ([], w)"
| "load_items (orderData # rest) w =
     (let itemsResult = map read_item_row (filter (\<lambda>i. orderId i = id' orderData) (OrderItems w));
          (orders, w') = load_items rest (issue (SelectOrderItems (id' orderData)) w)
      in (with_items orderData itemsResult # orders, w'))"

text \<open>
  \<^verbatim>\<open>page\<close> and \<^verbatim>\<open>pageSize\<close> reach the store as integers (the controller validates them);
  \<^verbatim>\<open>offset\<close> and \<^verbatim>\<open>pageSize\<close> are bound as \<^verbatim>\<open>sql.Int\<close>, and the statement needs a
  non-negative offset and a positive row count. \<^verbatim>\<open>ORDER BY createdAt DESC\<close> is a sort on
  the negated timestamp; rows of equal timestamp keep their table order. \<open>page_rows\<close> is
  the result of the paging \<^verbatim>\<open>SELECT\<close>, the second query counts the customer's orders.
\<close>

definition page_rows :: "string \<Rightarrow> int \<Rightarrow> int \<Rightarrow> world \<Rightarrow> order_row list" where
  "page_rows cid page pageSize w =
     take (nat pageSize) (drop (nat ((page - 1) * pageSize))
       (sort_key (\<lambda>r. - int (createdAt r)) (filter (\<lambda>r. customerId r = cid) (Orders w))))"

definition db_getOrdersByCustomer :: "string \<Rightarrow> int \<Rightarrow> int \<Rightarrow> world
    \<Rightarrow> (error + Order list \<times> nat) \<times> world" where
  "db_getOrdersByCustomer cid page pageSize w =
     (if \<not> pool w then (Inl pool_error, w)
      else let offset = (page - 1) * pageSize;
               w1 = issue (SelectOrdersPage cid offset pageSize) w
           in if \<not> int32 offset \<or> \<not> int32 pageSize then (Inl (RequestError IntOutOfRange), w1)
              else if offset < 0 \<or> pageSize \<le> 0 then (Inl (RequestError InvalidOffsetFetch), w1)
              else let ordersResult = page_rows cid page pageSize w;
                       totalCount = length (filter (\<lambda>r. customerId r = cid) (Orders w));
                       (orders, w2) = load_items (map read_order_row ordersResult)
                                        (issue (SelectCount cid) w1)
                   in (Inr (orders, totalCount), w2))"

text \<open>
  \<^verbatim>\<open>UPDATE Orders SET status = @status, updatedAt = GETUTCDATE() WHERE id = @orderId\<close>,
  then the order is fetched again.
\<close>

definition db_updateOrderStatus :: "env \<Rightarrow> string \<Rightarrow> order_status \<Rightarrow> world
    \<Rightarrow> (error + Order option) \<times> world" where
  "db_updateOrderStatus env oid st w =
     (if \<not> pool w then (Inl pool_error, w)
      else db_getOrderById oid
             ((issue (UpdateOrders oid st) w)
                \<lparr>Orders := map (\<lambda>r. if id' r = oid
                                     then r\<lparr>status := st, updatedAt := GETUTCDATE env\<rparr> else r)
                               (Orders w)\<rparr>))"


section \<open>Request validation (the Joi schemas of OrderController.ts)\<close>

text \<open>
  A parsed request body is represented by the fields the schema names, each absent or
  present with a value of the schema's base type, and by the list of keys the schema does
  not name. Values of another JSON type (refused or converted by the library) are not
  represented. A schema checks its keys in the order they are written and reports the first
  failure; keys it does not name are refused last.
\<close>

record item_body =
  b_productId :: "string option"
  b_productName :: "string option"
  b_quantity :: "number option"
  b_unitPrice :: "number option"
  b_item_unknown :: "string list"

record create_body =
  b_customerId :: "string option"
  b_customerEmail :: "string option"
  b_shippingAddress :: "string option"
  b_billingAddress :: "string option"
  b_currency :: "string option"
  b_orderItems :: "item_body list option"
  b_unknown :: "string list"

record status_body =
  b_status :: "string option"
  b_status_unknown :: "string list"

record query =
  q_page :: "number option"
  q_pageSize :: "number option"
  q_unknown :: "string list"

record item_value =
  v_productId :: string
  v_productName :: string
  v_quantity :: number
  v_unitPrice :: number

record create_value =
  v_customerId :: string
  v_customerEmail :: string
  v_shippingAddress :: string
  v_billingAddress :: string
  v_currency :: string
  v_orderItems :: "item_value list"

definition bindE :: "'e + 'a \<Rightarrow> ('a \<Rightarrow> 'e + 'b) \<Rightarrow> 'e + 'b" where
  "bindE m f = (case m of Inl e \<Rightarrow> Inl e | Inr x \<Rightarrow> f x)"

text \<open>\<^verbatim>\<open>Joi.string().required()\<close>: present and not the empty string.\<close>

definition joi_string_required :: "string list \<Rightarrow> string option \<Rightarrow> joi_error + string" where
  "joi_string_required path v =
     (case v of
        None \<Rightarrow> Inl (JoiError any_required path)
      | Some s \<Rightarrow> if s = [] then Inl (JoiError string_empty path) else Inr s)"

text \<open>\<^verbatim>\<open>Joi.number()\<close>: a finite number within the safe integer range.\<close>

definition MAX_SAFE_INTEGER :: number where
  "MAX_SAFE_INTEGER = 2 ^ 53 - 1"

definition joi_number :: "string list \<Rightarrow> number \<Rightarrow> joi_error + number" where
  "joi_number path x =
     (if MAX_SAFE_INTEGER < x \<or> x < - MAX_SAFE_INTEGER then Inl (JoiError number_unsafe path)
      else Inr x)"

definition joi_integer :: "string list \<Rightarrow> number \<Rightarrow> joi_error + number" where
  "joi_integer path x =
     (if x = of_int \<lfloor>x\<rfloor> then Inr x else Inl (JoiError number_integer path))"

definition joi_min :: "number \<Rightarrow> string list \<Rightarrow> number \<Rightarrow> joi_error + number" where
  "joi_min limit path x = (if limit \<le> x then Inr x else Inl (JoiError number_min path))"

definition joi_max :: "number \<Rightarrow> string list \<Rightarrow> number \<Rightarrow> joi_error + number" where
  "joi_max limit path x = (if x \<le> limit then Inr x else Inl (JoiError number_max path))"

definition joi_positive :: "string list \<Rightarrow> number \<Rightarrow> joi_error + number" where
  "joi_positive path x = (if 0 < x then Inr x else Inl (JoiError number_positive path))"

definition joi_unknown :: "string list \<Rightarrow> string list \<Rightarrow> 'a \<Rightarrow> joi_error + 'a" where
  "joi_unknown path keys v =
     (case keys of [] \<Rightarrow> Inr v | k # _ \<Rightarrow> Inl (JoiError object_unknown (path @ [k])))"

text \<open>The item schema of \<^verbatim>\<open>createOrderSchema\<close>, for the item at index \<open>k\<close>.\<close>

definition validate_item :: "nat \<Rightarrow> item_body \<Rightarrow> joi_error + item_value" where
  "validate_item k b =
     (let path = [''orderItems'', string_of_nat k] in
      bindE (joi_string_required (path @ [''productId'']) (b_productId b)) (\<lambda>pid.
      bindE (joi_string_required (path @ [''productName'']) (b_productName b)) (\<lambda>pname.
      bindE (case b_quantity b of
               None \<Rightarrow> Inl (JoiError any_required (path @ [''quantity'']))
             | Some x \<Rightarrow>
                 bindE (joi_number (path @ [''quantity'']) x) (\<lambda>x.
                 bindE (joi_integer (path @ [''quantity'']) x) (\<lambda>x.
                 joi_min 1 (path @ [''quantity'']) x))) (\<lambda>qty.
      bindE (case b_unitPrice b of
               None \<Rightarrow> Inl (JoiError any_required (path @ [''unitPrice'']))
             | Some x \<Rightarrow>
                 bindE (joi_number (path @ [''unitPrice'']) x) (\<lambda>x.
                 joi_positive (path @ [''unitPrice'']) x)) (\<lambda>price.
      joi_unknown path (b_item_unknown b)
        \<lparr>v_productId = pid, v_productName = pname, v_quantity = qty, v_unitPrice = price\<rparr>)))))"

fun validate_items :: "nat \<Rightarrow> item_body list \<Rightarrow> joi_error + item_value list" where
  "validate_items k [] = Inr []"
| "validate_items k (b # bs) =
     bindE (validate_item k b) (\<lambda>v.
     bindE (validate_items (Suc k) bs) (\<lambda>vs. Inr (v # vs)))"

text \<open>\<^verbatim>\<open>createOrderSchema\<close>.\<close>

definition validate_createOrder :: "env \<Rightarrow> create_body \<Rightarrow> joi_error + create_value" where
  "validate_createOrder env b =
     bindE (joi_string_required [''customerId''] (b_customerId b)) (\<lambda>cid.
     bindE (bindE (joi_string_required [''customerEmail''] (b_customerEmail b)) (\<lambda>s.
              if email_valid env s then Inr s
              else Inl (JoiError string_email [''customerEmail'']))) (\<lambda>email.
     bindE (joi_string_required [''shippingAddress''] (b_shippingAddress b)) (\<lambda>shipping.
     bindE (joi_string_required [''billingAddress''] (b_billingAddress b)) (\<lambda>billing.
     bindE (case b_currency b of
              None \<Rightarrow> Inr ''USD''
            | Some s \<Rightarrow>
                if s = [] then Inl (JoiError string_empty [''currency''])
                else if length s \<noteq> 3 then Inl (JoiError string_length [''currency''])
                else Inr s) (\<lambda>cur.
     bindE (case b_orderItems b of
              None \<Rightarrow> Inl (JoiError any_required [''orderItems''])
            | Some bs \<Rightarrow>
                bindE (validate_items 0 bs) (\<lambda>vs.
                if length vs < 1 then Inl (JoiError array_min [''orderItems'']) else Inr vs)) (\<lambda>items.
     joi_unknown [] (b_unknown b)
       \<lparr>v_customerId = cid, v_customerEmail = email, v_shippingAddress = shipping,
        v_billingAddress = billing, v_currency = cur, v_orderItems = items\<rparr>))))))"

text \<open>\<^verbatim>\<open>updateOrderStatusSchema\<close>.\<close>

definition status_of_string :: "string \<Rightarrow> order_status option" where
  "status_of_string s =
     map_of [(''pending'', Pending), (''processing'', Processing), (''shipped'', Shipped),
             (''delivered'', Delivered), (''cancelled'', Cancelled)] s"

definition validate_updateOrderStatus :: "status_body \<Rightarrow> joi_error + order_status" where
  "validate_updateOrderStatus b =
     bindE (case b_status b of
              None \<Rightarrow> Inl (JoiError any_required [''status''])
            | Some s \<Rightarrow>
               (case status_of_string s of
                  None \<Rightarrow> Inl (JoiError any_only [''status''])
                | Some st \<Rightarrow> Inr st)) (\<lambda>st.
     joi_unknown [] (b_status_unknown b) st)"

text \<open>\<^verbatim>\<open>queryParamsSchema\<close>; the validated numbers are integers.\<close>

definition validate_queryParams :: "query \<Rightarrow> joi_error + int \<times> int" where
  "validate_queryParams q =
     bindE (case q_page q of
              None \<Rightarrow> Inr 1
            | Some x \<Rightarrow>
                bindE (joi_number [''page''] x) (\<lambda>x.
                bindE (joi_integer [''page''] x) (\<lambda>x.
                joi_min 1 [''page''] x))) (\<lambda>page.
     bindE (case q_pageSize q of
              None \<Rightarrow> Inr 10
            | Some x \<Rightarrow>
                bindE (joi_number [''pageSize''] x) (\<lambda>x.
                bindE (joi_integer [''pageSize''] x) (\<lambda>x.
                bindE (joi_min 1 [''pageSize''] x) (\<lambda>x.
                joi_max 100 [''pageSize''] x)))) (\<lambda>pageSize.
     joi_unknown [] (q_unknown q) (\<lfloor>page\<rfloor>, \<lfloor>pageSize\<rfloor>)))"


section \<open>The event notifier (ServiceBusService.ts)\<close>

text \<open>
  \<^verbatim>\<open>publishOrderEvent\<close> hands the event to the broker and rethrows whatever the
  initialisation or the send throws; the outcome of the send is read from the environment
  (\<open>None\<close>: sent).
\<close>

definition publishOrderEvent :: "(string \<Rightarrow> OrderEvent \<Rightarrow> error option) \<Rightarrow> string \<Rightarrow> OrderEvent
    \<Rightarrow> world \<Rightarrow> (error + unit) \<times> world" where
  "publishOrderEvent sendMessages eventType eventData w =
     (let w' = w\<lparr>trace := trace w @ [Publish eventType eventData]\<rparr>
      in case sendMessages eventType eventData of
           Some e \<Rightarrow> (Inl e, w')
         | None \<Rightarrow> (Inr (), w'))"


section \<open>The controller (OrderController.ts)\<close>

record user =
  u_id :: string
  u_email :: string
  roles :: "string list"

record pagination =
  p_page :: int
  p_pageSize :: int
  p_totalCount :: nat
  p_totalPages :: int

datatype json_body =
    JOrder "Order option"
  | JOrders "Order list" pagination
  | JMessage string string

text \<open>
  A handler either sends a response (\<^verbatim>\<open>res.status(s).json(b)\<close>) or passes an error to
  \<^verbatim>\<open>next\<close>.
\<close>

datatype response = Sent nat json_body | Next error

record notifier =
  sendMessages :: "string \<Rightarrow> OrderEvent \<Rightarrow> error option"

text \<open>\<^verbatim>\<open>req.user?.id\<close>, \<^verbatim>\<open>req.user?.email\<close>: absent values are falsy like the empty string.\<close>

definition user_id :: "user option \<Rightarrow> string" where
  "user_id u = (case u of None \<Rightarrow> [] | Some x \<Rightarrow> u_id x)"

definition user_email :: "user option \<Rightarrow> string" where
  "user_email u = (case u of None \<Rightarrow> [] | Some x \<Rightarrow> u_email x)"

text \<open>\<^verbatim>\<open>req.user?.roles?.includes('admin') || false\<close>.\<close>

definition isAdmin :: "user option \<Rightarrow> bool" where
  "isAdmin u = (case u of None \<Rightarrow> False | Some x \<Rightarrow> ''admin'' \<in> set (roles x))"

text \<open>
  The \<^verbatim>\<open>try { await publishOrderEvent(...) } catch (eventError) { logger.error(...) }\<close>
  of the three writing handlers. The event is built inside the \<^verbatim>\<open>try\<close>: reading a field
  of a \<^verbatim>\<open>null\<close> order throws there and is caught as well (\<open>None\<close>).
\<close>

definition try_publish :: "(string \<Rightarrow> OrderEvent \<Rightarrow> error option) \<Rightarrow> string \<Rightarrow> OrderEvent option
    \<Rightarrow> world \<Rightarrow> world" where
  "try_publish send eventType ev w =
     (case ev of
        None \<Rightarrow> w
      | Some e \<Rightarrow> (case publishOrderEvent send eventType e w of (_, w') \<Rightarrow> w'))"

definition getOrders :: "user option \<Rightarrow> query \<Rightarrow> world \<Rightarrow> response \<times> world" where
  "getOrders u q w =
     (case validate_queryParams q of
        Inl e \<Rightarrow> (Next (ValidationError e), w)
      | Inr (page, pageSize) \<Rightarrow>
          if user_id u = [] then (Next (BadRequestError ''Customer ID not found in token''), w)
          else case db_getOrdersByCustomer (user_id u) page pageSize w of
                 (Inl e, w') \<Rightarrow> (Next e, w')
               | (Inr (orders, totalCount), w') \<Rightarrow>
                   (Sent 200 (JOrders orders
                      \<lparr>p_page = page, p_pageSize = pageSize, p_totalCount = totalCount,
                       p_totalPages = \<lceil>js_div (of_nat totalCount) (of_int pageSize)\<rceil>\<rparr>), w'))"

definition getOrderById :: "user option \<Rightarrow> string \<Rightarrow> world \<Rightarrow> response \<times> world" where
  "getOrderById u oid w =
     (if user_id u = [] then (Next (BadRequestError ''Customer ID not found in token''), w)
      else case db_getOrderById oid w of
             (Inl e, w') \<Rightarrow> (Next e, w')
           | (Inr None, w') \<Rightarrow> (Next (NotFoundError ''Order not found''), w')
           | (Inr (Some order), w') \<Rightarrow>
               if \<not> isAdmin u \<and> customerId order \<noteq> user_id u
               then (Next (NotFoundError ''Order not found''), w')
               else (Sent 200 (JOrder (Some order)), w'))"

text \<open>The order number: \<^verbatim>\<open>`ORD-${Date.now()}-${Math.random().toString(36).substr(2, 5).toUpperCase()}`\<close>.\<close>

definition generate_orderNumber :: "env \<Rightarrow> string" where
  "generate_orderNumber env =
     ''ORD-'' @ string_of_nat (Date_now env) @ ''-'' @ toUpperCase (substr 2 5 (Math_random env))"

text \<open>\<^verbatim>\<open>value.orderItems.map(item => ({...item, id: uuidv4(), orderId: '', totalPrice: ...}))\<close>.\<close>

fun map_orderItems :: "env \<Rightarrow> nat \<Rightarrow> item_value list \<Rightarrow> OrderItem list" where
  "map_orderItems env k [] = []"
| "map_orderItems env k (item # items) =
     \<lparr>item_id = uuidv4 env k, orderId = [], productId = v_productId item,
      productName = v_productName item, quantity = v_quantity item,
      unitPrice = v_unitPrice item,
      totalPrice = js_mul (v_quantity item) (v_unitPrice item)\<rparr>
     # map_orderItems env (Suc k) items"

definition created_event :: "env \<Rightarrow> Order \<Rightarrow> OrderEvent" where
  "created_event env createdOrder =
     \<lparr>e_orderId = id' createdOrder, e_customerId = customerId createdOrder,
      e_orderNumber = orderNumber createdOrder, e_totalAmount = Some (totalAmount createdOrder),
      e_currency = Some (currency createdOrder), e_oldStatus = None, e_newStatus = None,
      e_timestamp = new_Date env\<rparr>"

text \<open>
  The order data of \<^verbatim>\<open>createOrder\<close>: the customer is the caller of the request, the
  line totals and the total amount are computed from the validated items.
\<close>

definition build_orderData :: "env \<Rightarrow> user option \<Rightarrow> create_value \<Rightarrow> order_data" where
  "build_orderData env u v =
     (let items = map_orderItems env 0 (v_orderItems v);
          total = foldl (\<lambda>sum item. js_add sum (totalPrice item)) 0 items
      in \<lparr>d_customerId = user_id u, d_customerEmail = user_email u,
          d_orderNumber = generate_orderNumber env, d_status = Pending,
          d_totalAmount = total, d_currency = v_currency v,
          d_shippingAddress = v_shippingAddress v,
          d_billingAddress = v_billingAddress v, d_orderItems = items\<rparr>)"

definition createOrder :: "env \<Rightarrow> notifier \<Rightarrow> user option \<Rightarrow> create_body \<Rightarrow> world
    \<Rightarrow> response \<times> world" where
  "createOrder env bus u body w =
     (case validate_createOrder env body of
        Inl e \<Rightarrow> (Next (ValidationError e), w)
      | Inr v \<Rightarrow>
          if user_id u = [] \<or> user_email u = []
          then (Next (BadRequestError ''Customer information not found in token''), w)
          else case db_createOrder env (build_orderData env u v) w of
                 (Inl e, w') \<Rightarrow> (Next e, w')
               | (Inr createdOrder, w') \<Rightarrow>
                   (Sent 201 (JOrder createdOrder),
                    try_publish (sendMessages bus) ''order.created''
                      (map_option (created_event env) createdOrder) w'))"

definition status_changed_event :: "env \<Rightarrow> order_status \<Rightarrow> Order \<Rightarrow> OrderEvent" where
  "status_changed_event env st updatedOrder =
     \<lparr>e_orderId = id' updatedOrder, e_customerId = customerId updatedOrder,
      e_orderNumber = orderNumber updatedOrder, e_totalAmount = None, e_currency = None,
      e_oldStatus = Some ''unknown'', e_newStatus = Some st, e_timestamp = new_Date env\<rparr>"

definition updateOrderStatus :: "env \<Rightarrow> notifier \<Rightarrow> user option \<Rightarrow> string \<Rightarrow> status_body
    \<Rightarrow> world \<Rightarrow> response \<times> world" where
  "updateOrderStatus env bus u oid body w =
     (if \<not> isAdmin u then (Sent 403 (JMessage ''Forbidden'' ''Admin access required''), w)
      else case validate_updateOrderStatus body of
             Inl e \<Rightarrow> (Next (ValidationError e), w)
           | Inr st \<Rightarrow>
              (case db_updateOrderStatus env oid st w of
                 (Inl e, w') \<Rightarrow> (Next e, w')
               | (Inr None, w') \<Rightarrow> (Next (NotFoundError ''Order not found''), w')
               | (Inr (Some updatedOrder), w') \<Rightarrow>
                   (Sent 200 (JOrder (Some updatedOrder)),
                    try_publish (sendMessages bus) ''order.status_changed''
                      (Some (status_changed_event env st updatedOrder)) w')))"

definition cancelled_event :: "env \<Rightarrow> Order \<Rightarrow> OrderEvent" where
  "cancelled_event env updatedOrder =
     \<lparr>e_orderId = id' updatedOrder, e_customerId = customerId updatedOrder,
      e_orderNumber = orderNumber updatedOrder, e_totalAmount = Some (totalAmount updatedOrder),
      e_currency = None, e_oldStatus = None, e_newStatus = None, e_timestamp = new_Date env\<rparr>"

definition cancelOrder :: "env \<Rightarrow> notifier \<Rightarrow> user option \<Rightarrow> string \<Rightarrow> world
    \<Rightarrow> response \<times> world" where
  "cancelOrder env bus u oid w =
     (if user_id u = [] then (Next (BadRequestError ''Customer ID not found in token''), w)
      else case db_getOrderById oid w of
             (Inl e, w') \<Rightarrow> (Next e, w')
           | (Inr None, w') \<Rightarrow> (Next (NotFoundError ''Order not found''), w')
           | (Inr (Some currentOrder), w') \<Rightarrow>
               if \<not> isAdmin u \<and> customerId currentOrder \<noteq> user_id u
               then (Next (NotFoundError ''Order not found''), w')
               else if status currentOrder = Cancelled
               then (Next (BadRequestError ''Order is already cancelled''), w')
               else if status currentOrder \<in> {Shipped, Delivered}
               then (Next (BadRequestError ''Cannot cancel shipped or delivered orders''), w')
               else case db_updateOrderStatus env oid Cancelled w' of
                      (Inl e, w'') \<Rightarrow> (Next e, w'')
                    | (Inr updatedOrder, w'') \<Rightarrow>
                        (Sent 200 (JOrder updatedOrder),
                         try_publish (sendMessages bus) ''order.cancelled''
                           (map_option (cancelled_event env) updatedOrder) w''))"

text \<open>\<^verbatim>\<open>initializeRoutes\<close>: the five routes of the router.\<close>

datatype request =
    GET_orders query
  | GET_order string
  | POST_orders create_body
  | PATCH_status string status_body
  | PATCH_cancel string

fun handle :: "env \<Rightarrow> notifier \<Rightarrow> user option \<Rightarrow> request \<Rightarrow> world \<Rightarrow> response \<times> world" where
  "handle env bus u (GET_orders q) w = getOrders u q w"
| "handle env bus u (GET_order oid) w = getOrderById u oid w"
| "handle env bus u (POST_orders body) w = createOrder env bus u body w"
| "handle env bus u (PATCH_status oid body) w = updateOrderStatus env bus u oid body w"
| "handle env bus u (PATCH_cancel oid) w = cancelOrder env bus u oid w"


section \<open>The error handler (errorHandler.ts)\<close>

text \<open>
  The status the error middleware answers with. The three classes of \<^verbatim>\<open>utils/errors.ts\<close>
  are recognised by \<^verbatim>\<open>instanceof\<close>; any other error by its name and message. The message
  of a unique-key violation of the store contains \<^verbatim>\<open>UNIQUE KEY constraint\<close>.
\<close>

fun errorHandler :: "error \<Rightarrow> nat" where
  "errorHandler (ValidationError _) = 400"
| "errorHandler (BadRequestError _) = 400"
| "errorHandler (NotFoundError _) = 404"
| "errorHandler (RequestError e) = (if e = UniqueKeyViolation then 409 else 500)"
| "errorHandler (Error msg) =
     (if str_includes msg ''UNIQUE KEY constraint'' then 409
      else if str_includes msg ''Azure'' then 503 else 500)"
| "errorHandler (TypeError msg) =
     (if str_includes msg ''UNIQUE KEY constraint'' then 409
      else if str_includes msg ''Azure'' then 503 else 500)"

fun http_status :: "response \<Rightarrow> nat" where
  "http_status (Sent s _) = s"
| "http_status (Next e) = errorHandler e"


section \<open>Concurrent requests\<close>




section \<open>A concrete scenario\<close>

text \<open>
  One environment, three callers and a store holding one order of the customer
  \<open>alice\<close>, used to evaluate the handlers on explicit inputs.
\<close>

definition env0 :: env where
  "env0 = \<lparr>Date_now = 1700000000000, new_Date = 1700000000005, Math_random = ''0.k3j9x2a1'',
            uuidv4 = (\<lambda>k. ''u'' @ string_of_nat k), NEWID = (\<lambda>k. ''id'' @ string_of_nat k),
            GETUTCDATE = 1700000000002, email_valid = (\<lambda>s. CHR ''@'' \<in> set s)\<rparr>"

definition bus_up :: notifier where
  "bus_up = \<lparr>sendMessages = (\<lambda>_ _. None)\<rparr>"

definition bus_down :: notifier where
  "bus_down = \<lparr>sendMessages = (\<lambda>_ _. Some (Error ''ServiceBusError''))\<rparr>"

definition alice :: user where
  "alice = \<lparr>u_id = ''alice'', u_email = ''alice@example.com'', roles = [''customer'']\<rparr>"

definition bob :: user where
  "bob = \<lparr>u_id = ''bob'', u_email = ''bob@example.com'', roles = [''customer'']\<rparr>"


definition row_a :: "order_status \<Rightarrow> order_row" where
  "row_a st = \<lparr>id' = ''a1'', customerId = ''alice'', customerEmail = ''alice@example.com'',
               orderNumber = ''ORD-1690000000000-AB12C'', status = st, totalAmount = 25,
               currency = ''USD'', shippingAddress = ''1 Main St'', billingAddress = ''1 Main St'',
               createdAt = 1690000000000, updatedAt = 1690000000000\<rparr>"

definition items_a :: "OrderItem list" where
  "items_a =
     [\<lparr>item_id = ''a2'', orderId = ''a1'', productId = ''p1'', productName = ''Widget'',
       quantity = 2, unitPrice = 10, totalPrice = 20\<rparr>,
      \<lparr>item_id = ''a3'', orderId = ''a1'', productId = ''p2'', productName = ''Gadget'',
       quantity = 1, unitPrice = 5, totalPrice = 5\<rparr>]"

definition store_a :: "order_status \<Rightarrow> world" where
  "store_a st = \<lparr>pool = True, Orders = [row_a st], OrderItems = items_a, trace = []\<rparr>"

definition empty_store :: world where
  "empty_store = \<lparr>pool = True, Orders = [], OrderItems = [], trace = []\<rparr>"

text \<open>
  A request body for two items, \<open>2 \<times> 10.00\<close> and \<open>1 \<times> 5.00\<close>, its validated value, and
  the order the store returns for it when \<open>alice\<close> sends it to the empty store.
\<close>

definition item_w :: item_body where
  "item_w = \<lparr>b_productId = Some ''p1'', b_productName = Some ''Widget'', b_quantity = Some 2,
             b_unitPrice = Some 10, b_item_unknown = []\<rparr>"

definition item_g :: item_body where
  "item_g = \<lparr>b_productId = Some ''p2'', b_productName = Some ''Gadget'', b_quantity = Some 1,
             b_unitPrice = Some 5, b_item_unknown = []\<rparr>"

definition body_a :: create_body where
  "body_a = \<lparr>b_customerId = Some ''someone'', b_customerEmail = Some ''someone@example.com'',
             b_shippingAddress = Some ''1 Main St'', b_billingAddress = Some ''1 Main St'',
             b_currency = None, b_orderItems = Some [item_w, item_g], b_unknown = []\<rparr>"

definition value_a :: create_value where
  "value_a = \<lparr>v_customerId = ''someone'', v_customerEmail = ''someone@example.com'',
              v_shippingAddress = ''1 Main St'', v_billingAddress = ''1 Main St'',
              v_currency = ''USD'',
              v_orderItems =
                [\<lparr>v_productId = ''p1'', v_productName = ''Widget'', v_quantity = 2,
                  v_unitPrice = 10\<rparr>,
                 \<lparr>v_productId = ''p2'', v_productName = ''Gadget'', v_quantity = 1,
                  v_unitPrice = 5\<rparr>]\<rparr>"

definition order_a :: Order where
  "order_a = \<lparr>id' = ''id0'', customerId = ''alice'', customerEmail = ''alice@example.com'',
              orderNumber = ''ORD-1700000000000-K3J9X'', status = Pending, totalAmount = 25,
              currency = ''USD'', shippingAddress = ''1 Main St'', billingAddress = ''1 Main St'',
              createdAt = 1700000000002, updatedAt = 1700000000002,
              orderItems =
                [\<lparr>item_id = ''id1'', orderId = ''id0'', productId = ''p1'',
                  productName = ''Widget'', quantity = 2, unitPrice = 10, totalPrice = 20\<rparr>,
                 \<lparr>item_id = ''id2'', orderId = ''id0'', productId = ''p2'',
                  productName = ''Gadget'', quantity = 1, unitPrice = 5, totalPrice = 5\<rparr>]\<rparr>"







section \<open>Facts about binary64 rounding\<close>

lemma floor_rat_numeral [simp]:
  "\<lfloor>numeral a / numeral b :: rat\<rfloor> = numeral a div numeral b"
  using floor_divide_of_int_eq [of "numeral a" "numeral b", where ?'a = rat] by simp

lemma ceiling_rat_numeral [simp]:
  "\<lceil>numeral a / numeral b :: rat\<rceil> = - ((- numeral a) div numeral b)"
  using ceiling_divide_eq_div [of "numeral a" "numeral b", where ?'a = rat] by simp


lemma bitlen_pos: "0 < n \<Longrightarrow> 0 < bitlen n"
  by (subst bitlen.simps) simp

lemma bitlen_bounds:
  "0 < n \<Longrightarrow> 2 ^ (bitlen n - 1) \<le> n \<and> n < 2 ^ bitlen n"
proof (induction n rule: bitlen.induct)
  case (1 n)
  show ?case
  proof (cases "n div 2 = 0")
    case True
    with 1 have "n = 1" by presburger
    then show ?thesis by (simp add: bitlen.simps)
  next
    case False
    with 1 have pos: "0 < n div 2" by presburger
    from 1 have bl: "bitlen n = Suc (bitlen (n div 2))"
      by (subst bitlen.simps) simp
    from "1.IH" pos 1 have ih: "2 ^ (bitlen (n div 2) - 1) \<le> n div 2" "n div 2 < 2 ^ bitlen (n div 2)"
      by auto
    have p: "0 < bitlen (n div 2)" using pos by (rule bitlen_pos)
    then obtain k where k: "bitlen (n div 2) = Suc k" by (cases "bitlen (n div 2)") auto
    from ih k have "2 ^ k \<le> n div 2" "n div 2 < 2 * 2 ^ k" by auto
    then have "2 * 2 ^ k \<le> n" "n < 2 * (2 * 2 ^ k)" by presburger+
    then show ?thesis by (simp add: bl k)
  qed
qed

lemma pow2_powi: "pow2 e = 2 powi e"
  by (simp add: pow2_def power_int_def power_one_over)

lemma pow2_pos [simp]: "0 < pow2 e"
  by (simp add: pow2_powi)

lemma pow2_add: "pow2 (a + b) = pow2 a * pow2 b"
  by (simp add: pow2_powi power_int_add)

lemma pow2_diff: "pow2 (a - b) = pow2 a / pow2 b"
  by (simp add: pow2_powi power_int_diff)

lemma pow2_nat: "pow2 (int n) = 2 ^ n"
  by (simp add: pow2_powi)

lemma pow2_mono: "a \<le> b \<Longrightarrow> pow2 a \<le> pow2 b"
  by (simp add: pow2_powi power_int_increasing)

lemma pow2_strict_mono: "a < b \<Longrightarrow> pow2 a < pow2 b"
  by (simp add: pow2_powi power_int_strict_increasing)

lemma pow2_le_iff: "pow2 a \<le> pow2 b \<longleftrightarrow> a \<le> b"
  by (metis pow2_mono pow2_strict_mono not_le)

lemma pow2_less_iff: "pow2 a < pow2 b \<longleftrightarrow> a < b"
  by (metis pow2_mono pow2_strict_mono not_le)

lemma ilog2_bounds:
  assumes "0 < x"
  shows "pow2 (ilog2 x) \<le> x \<and> x < pow2 (ilog2 x + 1)"
proof (cases "1 \<le> x")
  case True
  then have fpos: "0 < \<lfloor>x\<rfloor>" by simp
  from bitlen_bounds[OF fpos] have b: "2 ^ (bitlen \<lfloor>x\<rfloor> - 1) \<le> \<lfloor>x\<rfloor>" "\<lfloor>x\<rfloor> < 2 ^ bitlen \<lfloor>x\<rfloor>"
    by auto
  have bp: "0 < bitlen \<lfloor>x\<rfloor>" using fpos by (rule bitlen_pos)
  have e: "ilog2 x = int (bitlen \<lfloor>x\<rfloor> - 1)" using True bp by (simp add: ilog2_def)
  have e1: "ilog2 x + 1 = int (bitlen \<lfloor>x\<rfloor>)" using True bp by (simp add: ilog2_def)
  have "(2::rat) ^ (bitlen \<lfloor>x\<rfloor> - 1) = of_int (2 ^ (bitlen \<lfloor>x\<rfloor> - 1))" by simp
  also have "\<dots> \<le> of_int \<lfloor>x\<rfloor>" using b(1) by (simp only: of_int_le_iff)
  also have "\<dots> \<le> x" by simp
  finally have lo: "pow2 (ilog2 x) \<le> x" by (simp add: e pow2_nat)
  have "\<lfloor>x\<rfloor> + 1 \<le> 2 ^ bitlen \<lfloor>x\<rfloor>" using b(2) by simp
  then have "(of_int (\<lfloor>x\<rfloor> + 1) :: rat) \<le> of_int (2 ^ bitlen \<lfloor>x\<rfloor>)" by (simp only: of_int_le_iff)
  moreover have "x < of_int (\<lfloor>x\<rfloor> + 1)" by linarith
  ultimately have "x < 2 ^ bitlen \<lfloor>x\<rfloor>" by simp
  then have hi: "x < pow2 (ilog2 x + 1)" by (simp add: e1 pow2_nat)
  from lo hi show ?thesis ..
next
  case False
  define c where "c = \<lceil>1 / x\<rceil>"
  define k where "k = bitlen (c - 1)"
  from False assms have inv: "1 < 1 / x" by simp
  then have c2: "2 \<le> c" unfolding c_def by linarith
  then have cpos: "0 < c - 1" by simp
  from bitlen_bounds[OF cpos] have b: "2 ^ (k - 1) \<le> c - 1" "c - 1 < 2 ^ k"
    by (auto simp: k_def)
  have kp: "0 < k" unfolding k_def using cpos by (rule bitlen_pos)
  have e: "ilog2 x = - int k" using False by (simp add: ilog2_def c_def k_def)
  have "1 / x \<le> of_int c" unfolding c_def by simp
  also have "(of_int c :: rat) \<le> of_int (2 ^ k)" using b(2) by (simp only: of_int_le_iff)
  finally have "1 / x \<le> 2 ^ k" by simp
  then have "1 \<le> 2 ^ k * x" using assms by (simp add: field_simps)
  then have lo: "pow2 (ilog2 x) \<le> x"
    by (simp add: e pow2_powi power_int_minus field_simps)
  have "(of_int (2 ^ (k - 1)) :: rat) \<le> of_int (c - 1)" using b(1) by (simp only: of_int_le_iff)
  moreover have "of_int (c - 1) < 1 / x" unfolding c_def by linarith
  ultimately have "2 ^ (k - 1) < 1 / x" by simp
  then have "2 ^ (k - 1) * x < 1" using assms by (simp add: field_simps)
  moreover have "ilog2 x + 1 = - int (k - 1)" using e kp by simp
  ultimately have hi: "x < pow2 (ilog2 x + 1)"
    by (simp add: pow2_powi power_int_minus field_simps)
  from lo hi show ?thesis ..
qed

lemma ilog2_le: "0 < x \<Longrightarrow> x < pow2 (k + 1) \<Longrightarrow> ilog2 x \<le> k"
proof -
  assume a: "0 < x" "x < pow2 (k + 1)"
  from ilog2_bounds[OF a(1)] a(2) have "pow2 (ilog2 x) < pow2 (k + 1)" by simp
  then show ?thesis by (simp add: pow2_less_iff)
qed

lemma ilog2_ge: "0 < x \<Longrightarrow> pow2 k \<le> x \<Longrightarrow> k \<le> ilog2 x"
proof -
  assume a: "0 < x" "pow2 k \<le> x"
  from ilog2_bounds[OF a(1)] a(2) have "pow2 k < pow2 (ilog2 x + 1)" by simp
  then show ?thesis by (simp add: pow2_less_iff)
qed

lemma roundTiesToEven_of_int [simp]: "roundTiesToEven (of_int k) = k"
  by (simp add: roundTiesToEven_def)

lemma roundTiesToEven_error: "\<bar>of_int (roundTiesToEven y) - y\<bar> \<le> 1 / 2"
proof -
  define f where "f = \<lfloor>y\<rfloor>"
  have b: "of_int f \<le> y" "y < of_int f + 1" unfolding f_def by linarith+
  have r: "roundTiesToEven y = f \<and> y - of_int f \<le> 1 / 2
         \<or> roundTiesToEven y = f + 1 \<and> 1 / 2 \<le> y - of_int f"
    unfolding roundTiesToEven_def Let_def f_def [symmetric] by auto
  then show ?thesis
  proof
    assume "roundTiesToEven y = f \<and> y - of_int f \<le> 1 / 2"
    then show ?thesis using b by simp
  next
    assume "roundTiesToEven y = f + 1 \<and> 1 / 2 \<le> y - of_int f"
    then show ?thesis using b by simp
  qed
qed

lemma pow2_nonzero [simp]: "pow2 e \<noteq> 0"
  by (simp add: pow2_powi)

lemma pow2_nonneg [simp]: "0 \<le> pow2 e"
  using pow2_pos [of e] by linarith

lemma pow2_abs [simp]: "\<bar>pow2 e\<bar> = pow2 e"
  using pow2_pos [of e] by linarith

lemma pow2_0 [simp]: "pow2 0 = 1"
  by (simp add: pow2_def)

lemma pow2_nonneg_int: "0 \<le> d \<Longrightarrow> pow2 d = of_int (2 ^ nat d)"
  by (simp add: pow2_def)

lemma ilog2_pow2: "ilog2 (pow2 k) = k"
proof -
  have "k \<le> ilog2 (pow2 k)" by (rule ilog2_ge) simp_all
  moreover have "ilog2 (pow2 k) \<le> k"
    by (rule ilog2_le) (simp_all add: pow2_strict_mono)
  ultimately show ?thesis by simp
qed

lemma scaled_is_int:
  assumes "0 < a" "a \<le> 2 ^ 53" "- 1074 \<le> e"
  shows "\<exists>k. of_int a * pow2 e / pow2 (max (ilog2 (of_int a * pow2 e) - 52) (- 1074)) = of_int k"
proof -
  define X where "X = of_int a * pow2 e"
  have Xpos: "0 < X" unfolding X_def using assms(1) by simp
  show ?thesis
  proof (cases "a = 2 ^ 53")
    case True
    have "X = pow2 53 * pow2 e" unfolding X_def True by (simp add: pow2_def)
    then have X: "X = pow2 (e + 53)" by (simp add: pow2_add [symmetric] add.commute)
    then have L: "ilog2 X = e + 53" by (simp add: ilog2_pow2)
    have m: "max (ilog2 X - 52) (- 1074) = e + 1" using L assms(3) by simp
    have "X / pow2 (e + 1) = pow2 ((e + 53) - (e + 1))" unfolding X by (rule pow2_diff [symmetric])
    also have "\<dots> = of_int (2 ^ 52)" by (simp add: pow2_def)
    finally show ?thesis unfolding X_def [symmetric] m by blast
  next
    case False
    with assms(2) have "a + 1 \<le> 2 ^ 53" by simp
    then have "(of_int (a + 1) :: rat) \<le> of_int (2 ^ 53)" by (simp only: of_int_le_iff)
    then have "(of_int a :: rat) < 2 ^ 53" by simp
    then have "X < 2 ^ 53 * pow2 e" unfolding X_def by simp
    also have "\<dots> = pow2 53 * pow2 e" by (simp add: pow2_def)
    also have "\<dots> = pow2 (e + 52 + 1)" by (simp add: pow2_add [symmetric] add.commute)
    finally have "ilog2 X \<le> e + 52" using Xpos by (intro ilog2_le)
    then have m: "max (ilog2 X - 52) (- 1074) \<le> e" using assms(3) by simp
    define d where "d = e - max (ilog2 X - 52) (- 1074)"
    have d0: "0 \<le> d" unfolding d_def using m by simp
    have "X / pow2 (max (ilog2 X - 52) (- 1074)) = of_int a * pow2 d"
      unfolding X_def d_def by (simp add: pow2_diff)
    also have "\<dots> = of_int (a * 2 ^ nat d)" using d0 by (simp add: pow2_nonneg_int)
    finally show ?thesis unfolding X_def [symmetric] by blast
  qed
qed

lemma fl_representable_pos:
  assumes "0 < a" "a \<le> 2 ^ 53" "- 1074 \<le> e"
  shows "fl (of_int a * pow2 e) = of_int a * pow2 e"
proof -
  define X where "X = of_int a * pow2 e"
  define e' where "e' = max (ilog2 X - 52) (- 1074)"
  have Xpos: "0 < X" unfolding X_def using assms(1) by simp
  obtain k where k: "X / pow2 e' = of_int k"
    using scaled_is_int [OF assms] unfolding X_def e'_def by blast
  have "fl X = of_int (roundTiesToEven (X / pow2 e')) * pow2 e'"
    using Xpos by (simp add: fl_def e'_def Let_def)
  also have "\<dots> = X / pow2 e' * pow2 e'" by (simp add: k)
  also have "\<dots> = X" by simp
  finally show ?thesis unfolding X_def .
qed

lemma fl_neg: "fl (- x) = - fl x"
  by (simp add: fl_def Let_def)

lemma fl_representable:
  assumes "\<bar>m\<bar> \<le> 2 ^ 53" "- 1074 \<le> e"
  shows "fl (of_int m * pow2 e) = of_int m * pow2 e"
proof -
  consider "m = 0" | "0 < m" | "m < 0" by linarith
  then show ?thesis
  proof cases
    case 1
    then show ?thesis by (simp add: fl_def)
  next
    case 2
    then show ?thesis using assms by (intro fl_representable_pos) simp_all
  next
    case 3
    then have "fl (of_int (- m) * pow2 e) = of_int (- m) * pow2 e"
      using assms by (intro fl_representable_pos) simp_all
    then show ?thesis using fl_neg [of "of_int m * pow2 e"] by simp
  qed
qed

lemma fl_of_int: "\<bar>n\<bar> \<le> 2 ^ 53 \<Longrightarrow> fl (of_int n) = of_int n"
  using fl_representable [of n 0] by simp

lemma fl_numeral [simp]: "numeral k \<le> (2 ^ 53 :: int) \<Longrightarrow> fl (numeral k) = numeral k"
  using fl_of_int [of "numeral k"] by simp

lemma fl_0 [simp]: "fl 0 = 0"
  by (simp add: fl_def)

lemma fl_1 [simp]: "fl 1 = 1"
  using fl_of_int [of 1] by simp

lemma fl_error:
  assumes "pow2 (- 1022) \<le> \<bar>x\<bar>"
  shows "\<bar>fl x - x\<bar> \<le> \<bar>x\<bar> * pow2 (- 53)"
proof -
  have xpos: "0 < \<bar>x\<bar>" using assms pow2_pos [of "- 1022"] by linarith
  then have x0: "x \<noteq> 0" by simp
  define L where "L = ilog2 \<bar>x\<bar>"
  have Lge: "- 1022 \<le> L" unfolding L_def using xpos assms by (rule ilog2_ge)
  define e' where "e' = L - 52"
  have m: "max (ilog2 \<bar>x\<bar> - 52) (- 1074) = e'" unfolding e'_def L_def [symmetric] using Lge by simp
  define y where "y = \<bar>x\<bar> / pow2 e'"
  define r where "r = roundTiesToEven y"
  define s where "s = sgn x"
  have s1: "\<bar>s\<bar> = 1" unfolding s_def using x0 by (simp add: abs_sgn_eq)
  have flx: "fl x = s * of_int r * pow2 e'"
    using x0 by (simp add: fl_def m Let_def r_def y_def s_def)
  have xy: "x = s * (y * pow2 e')" unfolding y_def s_def by (simp add: sgn_mult_abs)
  have "fl x - x = s * of_int r * pow2 e' - s * (y * pow2 e')"
    using flx xy by simp
  also have "\<dots> = s * ((of_int r - y) * pow2 e')"
    by (simp add: algebra_simps)
  finally have "\<bar>fl x - x\<bar> = \<bar>of_int r - y\<bar> * pow2 e'"
    using s1 by (simp add: abs_mult)
  also have "\<dots> \<le> 1 / 2 * pow2 e'"
    using roundTiesToEven_error [of y] unfolding r_def by (intro mult_right_mono) simp_all
  also have "\<dots> = pow2 L * pow2 (- 53)"
  proof -
    have "pow2 e' = pow2 (L + (- 53) + 1)" unfolding e'_def by simp
    also have "\<dots> = pow2 L * pow2 (- 53) * 2" by (simp only: pow2_add) (simp add: pow2_def)
    finally show ?thesis by simp
  qed
  also have "\<dots> \<le> \<bar>x\<bar> * pow2 (- 53)"
    using ilog2_bounds [OF xpos] unfolding L_def by (intro mult_right_mono) simp_all
  finally show ?thesis .
qed

lemma Math_round_of_int [simp]: "Math_round (of_int n) = n"
proof -
  have "\<lfloor>of_int n + 1 / 2 :: rat\<rfloor> = n" by linarith
  then show ?thesis by (simp add: Math_round_def)
qed

lemma Math_round_numeral [simp]: "Math_round (numeral k) = numeral k"
  using Math_round_of_int [of "numeral k"] by simp

lemmas number_defs = js_mul_def js_add_def js_div_def sql_Decimal_10_2_def read_Decimal_def
  sql_Int_def int32_def


section \<open>Facts about the store\<close>

lemma find_filter_Cons:
  "find P xs = Some x \<Longrightarrow> \<exists>ys. filter P xs = x # ys"
  by (induction xs) (auto split: if_splits)


lemma with_items_sel [simp]:
  "id' (with_items r its) = id' r"
  "customerId (with_items r its) = customerId r"
  "customerEmail (with_items r its) = customerEmail r"
  "orderNumber (with_items r its) = orderNumber r"
  "status (with_items r its) = status r"
  "totalAmount (with_items r its) = totalAmount r"
  "currency (with_items r its) = currency r"
  "shippingAddress (with_items r its) = shippingAddress r"
  "billingAddress (with_items r its) = billingAddress r"
  "createdAt (with_items r its) = createdAt r"
  "updatedAt (with_items r its) = updatedAt r"
  "orderItems (with_items r its) = its"
  by (simp_all add: with_items_def)

lemma read_order_row_sel [simp]:
  "id' (read_order_row r) = id' r"
  "customerId (read_order_row r) = customerId r"
  "customerEmail (read_order_row r) = customerEmail r"
  "orderNumber (read_order_row r) = orderNumber r"
  "status (read_order_row r) = status r"
  "totalAmount (read_order_row r) = read_Decimal (totalAmount r)"
  "currency (read_order_row r) = currency r"
  "shippingAddress (read_order_row r) = shippingAddress r"
  "billingAddress (read_order_row r) = billingAddress r"
  "createdAt (read_order_row r) = createdAt r"
  "updatedAt (read_order_row r) = updatedAt r"
  by (simp_all add: read_order_row_def)

lemma issue_sel [simp]:
  "pool (issue s w) = pool w"
  "Orders (issue s w) = Orders w"
  "OrderItems (issue s w) = OrderItems w"
  "trace (issue s w) = trace w @ [Sql s]"
  by (simp_all add: issue_def)


lemma left_join_some:
  assumes "find (\<lambda>r. id' r = oid) os = Some r"
  shows "\<exists>x rest. left_join os its oid = (read_order_row r, x) # rest"
proof -
  from assms obtain ys where ys: "filter (\<lambda>r. id' r = oid) os = r # ys"
    using find_filter_Cons by fastforce
  show ?thesis
    by (cases "filter (\<lambda>i. orderId i = id' r) its") (auto simp: left_join_def ys)
qed


lemma db_getOrderById_some:
  assumes "pool w" "find (\<lambda>r. id' r = oid) (Orders w) = Some r"
  shows "\<exists>its. db_getOrderById oid w =
           (Inr (Some (with_items (read_order_row r) its)), issue (SelectOrderJoin oid) w)"
proof -
  obtain x rest where "left_join (Orders w) (OrderItems w) oid = (read_order_row r, x) # rest"
    using left_join_some[OF assms(2)] by blast
  then show ?thesis using assms(1)
    by (auto simp: db_getOrderById_def Let_def)
qed


section \<open>Update-status by a caller who is not an admin\<close>

text \<open>
  Claim C4. A caller whose roles do not include \<^verbatim>\<open>admin\<close> (or a request without a
  user) gets the response 403 from the update-status handler whatever the order id, the
  body and the state of the store are; the state comes back as it was, its list of issued
  statements included: the store is neither read nor written.
\<close>

theorem updateOrderStatus_non_admin_forbidden:
  assumes "\<not> isAdmin u"
  shows "updateOrderStatus env bus u oid body w =
           (Sent 403 (JMessage ''Forbidden'' ''Admin access required''), w)"
  using assms by (simp add: updateOrderStatus_def)

theorem updateOrderStatus_non_admin_forbidden_witness:
  "\<not> isAdmin (Some bob) \<and>
   updateOrderStatus env0 bus_up (Some bob) ''a1''
       \<lparr>b_status = Some ''shipped'', b_status_unknown = []\<rparr> (store_a Pending) =
     (Sent 403 (JMessage ''Forbidden'' ''Admin access required''), store_a Pending)"
proof -
  have h: "\<not> isAdmin (Some bob)"
    by (simp add: isAdmin_def bob_def)
  show ?thesis
    using h updateOrderStatus_non_admin_forbidden [OF h] by simp
qed


section \<open>Evaluating the scenario\<close>

lemma validate_body_a: "validate_createOrder env0 body_a = Inr value_a"
  by (simp add: validate_createOrder_def body_a_def value_a_def validate_item_def item_w_def
      item_g_def bindE_def joi_string_required_def joi_number_def joi_integer_def joi_min_def
      joi_positive_def joi_unknown_def env0_def MAX_SAFE_INTEGER_def Let_def
      string_of_nat.simps)

lemma build_orderData_a:
  "build_orderData env0 (Some alice) value_a =
     \<lparr>d_customerId = ''alice'', d_customerEmail = ''alice@example.com'',
      d_orderNumber = ''ORD-1700000000000-K3J9X'', d_status = Pending, d_totalAmount = 25,
      d_currency = ''USD'', d_shippingAddress = ''1 Main St'', d_billingAddress = ''1 Main St'',
      d_orderItems =
        [\<lparr>item_id = ''u0'', orderId = [], productId = ''p1'', productName = ''Widget'',
          quantity = 2, unitPrice = 10, totalPrice = 20\<rparr>,
         \<lparr>item_id = ''u1'', orderId = [], productId = ''p2'', productName = ''Gadget'',
          quantity = 1, unitPrice = 5, totalPrice = 5\<rparr>]\<rparr>"
  by (simp add: build_orderData_def value_a_def env0_def alice_def user_id_def user_email_def
      generate_orderNumber_def toUpperCase_def substr_def number_defs string_of_nat.simps)

lemma db_createOrder_a:
  "fst (db_createOrder env0 (build_orderData env0 (Some alice) value_a) empty_store) =
     Inr (Some order_a)"
  by (simp only: build_orderData_a)
     (simp add: db_createOrder_def insert_Orders_def insert_OrderItems_def db_getOrderById_def
      left_join_def rollback_def issue_def nvarchar_def empty_store_def env0_def order_a_def
      read_order_row_def read_item_row_def with_items_def number_defs Let_def
      string_of_nat.simps)


section \<open>Cancelling an order that is cancelled, shipped or delivered\<close>





section \<open>Reading an order of another customer\<close>




section \<open>A failing notifier\<close>

lemma try_publish_indep:
  "try_publish send t ev w = try_publish send' t ev w"
  by (simp add: try_publish_def publishOrderEvent_def Let_def split: option.splits)

text \<open>
  Claim C3. The result of the create, update-status and cancel handlers (response and
  state) is the same for any two notifiers, whatever their sends throw; and a create whose
  validation and store transaction succeed answers 201 with the created order also when the
  send of the \<^verbatim>\<open>order.created\<close> event throws.
\<close>

theorem notifier_failure_swallowed:
  "createOrder env bus u cbody w = createOrder env bus' u cbody w
 \<and> updateOrderStatus env bus u oid sbody w = updateOrderStatus env bus' u oid sbody w
 \<and> cancelOrder env bus u oid w = cancelOrder env bus' u oid w
 \<and> (validate_createOrder env cbody = Inr v \<and> user_id u \<noteq> [] \<and> user_email u \<noteq> [] \<and>
      fst (db_createOrder env (build_orderData env u v) w) = Inr (Some order) \<and>
      sendMessages bus ''order.created'' (created_event env order) = Some e
     \<longrightarrow> fst (createOrder env bus u cbody w) = Sent 201 (JOrder (Some order))
       \<and> http_status (fst (createOrder env bus u cbody w)) = 201)"
proof -
  have c: "createOrder env bus u cbody w = createOrder env bus' u cbody w"
    unfolding createOrder_def
    using try_publish_indep[of "sendMessages bus" _ _ _ "sendMessages bus'"]
    by (simp split: sum.splits prod.splits)
  have s: "updateOrderStatus env bus u oid sbody w = updateOrderStatus env bus' u oid sbody w"
    unfolding updateOrderStatus_def
    using try_publish_indep[of "sendMessages bus" _ _ _ "sendMessages bus'"]
    by (simp split: sum.splits prod.splits option.splits)
  have x: "cancelOrder env bus u oid w = cancelOrder env bus' u oid w"
    unfolding cancelOrder_def
    using try_publish_indep[of "sendMessages bus" _ _ _ "sendMessages bus'"]
    by (simp split: sum.splits prod.splits option.splits)
  have "fst (createOrder env bus u cbody w) = Sent 201 (JOrder (Some order))"
    if "validate_createOrder env cbody = Inr v" "user_id u \<noteq> []" "user_email u \<noteq> []"
       "fst (db_createOrder env (build_orderData env u v) w) = Inr (Some order)"
    using that by (cases "db_createOrder env (build_orderData env u v) w")
      (simp add: createOrder_def)
  with c s x show ?thesis by simp
qed

theorem notifier_failure_swallowed_witness:
  "validate_createOrder env0 body_a = Inr value_a \<and>
   user_id (Some alice) \<noteq> [] \<and> user_email (Some alice) \<noteq> [] \<and>
   fst (db_createOrder env0 (build_orderData env0 (Some alice) value_a) empty_store) =
     Inr (Some order_a) \<and>
   sendMessages bus_down ''order.created'' (created_event env0 order_a) =
     Some (Error ''ServiceBusError'') \<and>
   fst (createOrder env0 bus_down (Some alice) body_a empty_store) =
     Sent 201 (JOrder (Some order_a))"
proof -
  have h2: "user_id (Some alice) \<noteq> []" "user_email (Some alice) \<noteq> []"
    by (simp_all add: user_id_def user_email_def alice_def)
  have h3: "sendMessages bus_down ''order.created'' (created_event env0 order_a) =
      Some (Error ''ServiceBusError'')"
    by (simp add: bus_down_def)
  have "fst (createOrder env0 bus_down (Some alice) body_a empty_store) =
      Sent 201 (JOrder (Some order_a))"
    using notifier_failure_swallowed [of env0 bus_down "Some alice" body_a empty_store bus_up
        "''a1''" "\<lparr>b_status = None, b_status_unknown = []\<rparr>" value_a order_a
        "Error ''ServiceBusError''"]
      validate_body_a db_createOrder_a h2 h3
    by blast
  with validate_body_a db_createOrder_a h2 h3 show ?thesis by blast
qed


section \<open>Effects of the store operations on the tables\<close>






lemma try_publish_tables [simp]:
  "pool (try_publish send t ev w) = pool w"
  "Orders (try_publish send t ev w) = Orders w"
  "OrderItems (try_publish send t ev w) = OrderItems w"
  by (simp_all add: try_publish_def publishOrderEvent_def Let_def split: option.splits)

lemma db_getOrderById_tables [simp]:
  "pool (snd (db_getOrderById oid w)) = pool w"
  "Orders (snd (db_getOrderById oid w)) = Orders w"
  "OrderItems (snd (db_getOrderById oid w)) = OrderItems w"
  by (auto simp: db_getOrderById_def Let_def split: list.splits)

lemma load_items_tables [simp]:
  "pool (snd (load_items rs w)) = pool w"
  "Orders (snd (load_items rs w)) = Orders w"
  "OrderItems (snd (load_items rs w)) = OrderItems w"
  by (induction rs arbitrary: w; simp add: Let_def split: prod.splits;
      metis issue_sel snd_conv)+

lemma db_getOrdersByCustomer_tables [simp]:
  "pool (snd (db_getOrdersByCustomer cid page pageSize w)) = pool w"
  "Orders (snd (db_getOrdersByCustomer cid page pageSize w)) = Orders w"
  "OrderItems (snd (db_getOrdersByCustomer cid page pageSize w)) = OrderItems w"
  by (auto simp: db_getOrdersByCustomer_def Let_def split: prod.splits;
      metis load_items_tables issue_sel snd_conv)+

lemma db_updateOrderStatus_tables [simp]:
  "pool (snd (db_updateOrderStatus env oid st w)) = pool w"
  "OrderItems (snd (db_updateOrderStatus env oid st w)) = OrderItems w"
  "Orders (snd (db_updateOrderStatus env oid st w)) =
     (if pool w
      then map (\<lambda>r. if id' r = oid then r\<lparr>status := st, updatedAt := GETUTCDATE env\<rparr> else r)
             (Orders w)
      else Orders w)"
  by (simp_all add: db_updateOrderStatus_def)

lemma find_key_None:
  "k \<notin> set (map f xs) \<Longrightarrow> find (\<lambda>r. f r = k) xs = None"
  by (induction xs) auto

lemma find_append_None:
  "find P xs = None \<Longrightarrow> find P (xs @ ys) = find P ys"
  by (induction xs) (auto split: if_splits)

lemma insert_Orders_effect:
  assumes "insert_Orders env od w = (res, w')"
  shows "pool w' = pool w \<and> OrderItems w' = OrderItems w
       \<and> (case res of
             Inl e \<Rightarrow> Orders w' = Orders w
           | Inr r \<Rightarrow> \<exists>row. Orders w' = Orders w @ [row] \<and> r = read_order_row row
                 \<and> id' row \<notin> set (map id' (Orders w))
                 \<and> orderNumber row \<notin> set (map orderNumber (Orders w))
                 \<and> customerId row = d_customerId od \<and> customerEmail row = d_customerEmail od
                 \<and> status row = d_status od \<and> orderNumber row = d_orderNumber od)"
  using assms
  by (auto simp: insert_Orders_def Let_def split: if_splits sum.splits)

lemma insert_OrderItems_effect:
  assumes "insert_OrderItems env oid k item w = (res, w')"
  shows "pool w' = pool w \<and> Orders w' = Orders w
       \<and> (case res of
             Inl e \<Rightarrow> OrderItems w' = OrderItems w
           | Inr _ \<Rightarrow> \<exists>row. OrderItems w' = OrderItems w @ [row] \<and> orderId row = oid
                 \<and> item_id row \<notin> set (map item_id (OrderItems w))
                 \<and> oid \<in> set (map id' (Orders w)))"
  using assms
  by (auto simp: insert_OrderItems_def Let_def split: if_splits sum.splits)

lemma insert_items_effect:
  assumes "insert_items env oid k items w = (res, w')"
  shows "pool w' = pool w \<and> Orders w' = Orders w
       \<and> (\<exists>new. OrderItems w' = OrderItems w @ new \<and> (\<forall>i\<in>set new. orderId i = oid)
             \<and> distinct (map item_id new)
             \<and> (\<forall>i\<in>set new. item_id i \<notin> set (map item_id (OrderItems w)))
             \<and> (new \<noteq> [] \<longrightarrow> oid \<in> set (map id' (Orders w))))"
  using assms
proof (induction items arbitrary: k w res w')
  case Nil
  then show ?case by simp
next
  case (Cons item items)
  obtain r1 w1 where s1: "insert_OrderItems env oid k item w = (r1, w1)"
    by (cases "insert_OrderItems env oid k item w")
  note e1 = insert_OrderItems_effect [OF s1]
  show ?case
  proof (cases r1)
    case (Inl e)
    with Cons.prems s1 have "w' = w1" by simp
    with e1 Inl show ?thesis by simp
  next
    case (Inr u)
    with Cons.prems s1 have rest: "insert_items env oid (Suc k) items w1 = (res, w')" by simp
    from e1 Inr obtain row where row: "OrderItems w1 = OrderItems w @ [row]" "orderId row = oid"
        "item_id row \<notin> set (map item_id (OrderItems w))" "oid \<in> set (map id' (Orders w))"
      by auto
    from Cons.IH [OF rest] obtain new where new: "pool w' = pool w1" "Orders w' = Orders w1"
        "OrderItems w' = OrderItems w1 @ new" "\<forall>i\<in>set new. orderId i = oid"
        "distinct (map item_id new)"
        "\<forall>i\<in>set new. item_id i \<notin> set (map item_id (OrderItems w1))"
      by blast
    have a: "OrderItems w' = OrderItems w @ (row # new)" using new(3) row(1) by simp
    have b: "\<forall>i\<in>set (row # new). orderId i = oid" using new(4) row(2) by simp
    have c: "distinct (map item_id (row # new))" using new(5,6) row(1) by auto
    have d: "\<forall>i\<in>set (row # new). item_id i \<notin> set (map item_id (OrderItems w))"
      using new(6) row(1,3) by auto
    have p: "pool w' = pool w" "Orders w' = Orders w" using new(1,2) e1 by simp_all
    have "\<exists>new. OrderItems w' = OrderItems w @ new \<and> (\<forall>i\<in>set new. orderId i = oid)
             \<and> distinct (map item_id new)
             \<and> (\<forall>i\<in>set new. item_id i \<notin> set (map item_id (OrderItems w)))
             \<and> (new \<noteq> [] \<longrightarrow> oid \<in> set (map id' (Orders w)))"
      using a b c d row(4) by (intro exI [of _ "row # new"]) simp
    with p show ?thesis by simp
  qed
qed

lemma db_createOrder_effect:
  assumes "db_createOrder env od w = (res, w')"
  shows "pool w' = pool w
       \<and> ((Orders w' = Orders w \<and> OrderItems w' = OrderItems w \<and> (\<exists>e. res = Inl e))
          \<or> (\<exists>row new. Orders w' = Orders w @ [row] \<and> OrderItems w' = OrderItems w @ new
                \<and> id' row \<notin> set (map id' (Orders w))
                \<and> orderNumber row \<notin> set (map orderNumber (Orders w))
                \<and> (\<forall>i\<in>set new. orderId i = id' row)
                \<and> distinct (map item_id new)
                \<and> (\<forall>i\<in>set new. item_id i \<notin> set (map item_id (OrderItems w)))
                \<and> customerId row = d_customerId od \<and> customerEmail row = d_customerEmail od
                \<and> status row = d_status od \<and> orderNumber row = d_orderNumber od
                \<and> (\<exists>its. res = Inr (Some (with_items (read_order_row row) its)))))"
proof (cases "pool w")
  case False
  with assms show ?thesis by (auto simp: db_createOrder_def)
next
  case True
  obtain r1 w1 where s1: "insert_Orders env od (issue BeginTransaction w) = (r1, w1)"
    by (cases "insert_Orders env od (issue BeginTransaction w)")
  note e1 = insert_Orders_effect [OF s1]
  show ?thesis
  proof (cases r1)
    case (Inl e)
    with assms True s1 e1 show ?thesis by (auto simp: db_createOrder_def rollback_def)
  next
    case (Inr createdOrder)
    from e1 Inr obtain row where row: "Orders w1 = Orders w @ [row]" "createdOrder = read_order_row row"
        "id' row \<notin> set (map id' (Orders w))" "orderNumber row \<notin> set (map orderNumber (Orders w))"
        "customerId row = d_customerId od" "customerEmail row = d_customerEmail od"
        "status row = d_status od" "orderNumber row = d_orderNumber od"
        "OrderItems w1 = OrderItems w" "pool w1 = pool w"
      by auto
    obtain r2 w2 where s2: "insert_items env (id' createdOrder) 1 (d_orderItems od) w1 = (r2, w2)"
      by (cases "insert_items env (id' createdOrder) 1 (d_orderItems od) w1")
    from insert_items_effect [OF s2] obtain new where new: "pool w2 = pool w1" "Orders w2 = Orders w1"
        "OrderItems w2 = OrderItems w1 @ new" "\<forall>i\<in>set new. orderId i = id' createdOrder"
        "distinct (map item_id new)"
        "\<forall>i\<in>set new. item_id i \<notin> set (map item_id (OrderItems w1))"
      by blast
    show ?thesis
    proof (cases r2)
      case (Inl e)
      with assms True s1 s2 \<open>r1 = Inr createdOrder\<close> new(1) row(10) show ?thesis
        by (auto simp: db_createOrder_def rollback_def)
    next
      case (Inr u)
      let ?wc = "issue Commit w2"
      have res: "db_createOrder env od w = db_getOrderById (id' createdOrder) ?wc"
        using True s1 s2 Inr \<open>r1 = Inr createdOrder\<close> by (simp add: db_createOrder_def)
      have p: "pool ?wc" using True new(1) row(10) by simp
      have f: "find (\<lambda>r. id' r = id' createdOrder) (Orders ?wc) = Some row"
      proof -
        have "find (\<lambda>r. id' r = id' row) (Orders w) = None"
          using row(3) by (rule find_key_None)
        then show ?thesis using new(2) row(1,2) by (simp add: find_append_None)
      qed
      from db_getOrderById_some [OF p f] obtain its where
        g: "db_getOrderById (id' createdOrder) ?wc =
            (Inr (Some (with_items (read_order_row row) its)), issue (SelectOrderJoin (id' createdOrder)) ?wc)"
        by blast
      from assms res g have r: "res = Inr (Some (with_items (read_order_row row) its))"
        and w': "w' = issue (SelectOrderJoin (id' createdOrder)) ?wc" by simp_all
      have "Orders w' = Orders w @ [row]" "OrderItems w' = OrderItems w @ new" "pool w' = pool w"
        using w' new row by simp_all
      moreover have "\<forall>i\<in>set new. orderId i = id' row" using new(4) row(2) by simp
      moreover have "\<forall>i\<in>set new. item_id i \<notin> set (map item_id (OrderItems w))"
        using new(6) row(9) by simp
      ultimately show ?thesis using row new(5) r by blast
    qed
  qed
qed

lemma getOrders_tables [simp]:
  "pool (snd (getOrders u q w)) = pool w"
  "Orders (snd (getOrders u q w)) = Orders w"
  "OrderItems (snd (getOrders u q w)) = OrderItems w"
proof -
  have "snd (getOrders u q w) = w \<or>
        (\<exists>cid p ps. snd (getOrders u q w) = snd (db_getOrdersByCustomer cid p ps w))"
    by (auto simp: getOrders_def split: sum.splits prod.splits) (metis snd_conv)+
  then show "pool (snd (getOrders u q w)) = pool w"
    "Orders (snd (getOrders u q w)) = Orders w"
    "OrderItems (snd (getOrders u q w)) = OrderItems w"
    by auto
qed

lemma getOrderById_tables [simp]:
  "pool (snd (getOrderById u oid w)) = pool w"
  "Orders (snd (getOrderById u oid w)) = Orders w"
  "OrderItems (snd (getOrderById u oid w)) = OrderItems w"
proof -
  have "snd (getOrderById u oid w) = w \<or> snd (getOrderById u oid w) = snd (db_getOrderById oid w)"
    by (auto simp: getOrderById_def split: sum.splits prod.splits option.splits)
  then show "pool (snd (getOrderById u oid w)) = pool w"
    "Orders (snd (getOrderById u oid w)) = Orders w"
    "OrderItems (snd (getOrderById u oid w)) = OrderItems w"
    by auto
qed

lemma updateOrderStatus_world:
  "snd (updateOrderStatus env bus u oid body w) = w \<or>
   (\<exists>st ev. snd (updateOrderStatus env bus u oid body w) = snd (db_updateOrderStatus env oid st w)
      \<or> snd (updateOrderStatus env bus u oid body w) =
          try_publish (sendMessages bus) ''order.status_changed'' ev
            (snd (db_updateOrderStatus env oid st w)))"
  by (auto simp: updateOrderStatus_def split: sum.splits prod.splits option.splits)
     (metis snd_conv)+

lemma updateOrderStatus_OrderItems [simp]:
  "OrderItems (snd (updateOrderStatus env bus u oid body w)) = OrderItems w"
  "pool (snd (updateOrderStatus env bus u oid body w)) = pool w"
  using updateOrderStatus_world [of env bus u oid body w] by auto

lemma cancelOrder_world:
  "snd (cancelOrder env bus u oid w) = w \<or>
   snd (cancelOrder env bus u oid w) = snd (db_getOrderById oid w) \<or>
   (\<exists>ev. snd (cancelOrder env bus u oid w) =
          snd (db_updateOrderStatus env oid Cancelled (snd (db_getOrderById oid w)))
      \<or> snd (cancelOrder env bus u oid w) =
          try_publish (sendMessages bus) ''order.cancelled'' ev
            (snd (db_updateOrderStatus env oid Cancelled (snd (db_getOrderById oid w)))))"
  by (auto simp: cancelOrder_def split: sum.splits prod.splits option.splits)

lemma cancelOrder_OrderItems [simp]:
  "OrderItems (snd (cancelOrder env bus u oid w)) = OrderItems w"
  "pool (snd (cancelOrder env bus u oid w)) = pool w"
  using cancelOrder_world [of env bus u oid w] by auto

lemma createOrder_world:
  "snd (createOrder env bus u body w) = w \<or>
   (\<exists>od ev. snd (createOrder env bus u body w) = snd (db_createOrder env od w)
      \<or> snd (createOrder env bus u body w) =
          try_publish (sendMessages bus) ''order.created'' ev (snd (db_createOrder env od w)))"
  by (auto simp: createOrder_def split: sum.splits prod.splits option.splits)
     (metis snd_conv)+

lemma createOrder_items:
  "\<exists>new. OrderItems (snd (createOrder env bus u body w)) = OrderItems w @ new
        \<and> (\<forall>i\<in>set new. orderId i \<notin> set (map id' (Orders w)))"
proof -
  have a: "\<exists>new. OrderItems (snd (db_createOrder env od w)) = OrderItems w @ new
        \<and> (\<forall>i\<in>set new. orderId i \<notin> set (map id' (Orders w)))" for od
  proof -
    obtain res w' where s: "db_createOrder env od w = (res, w')"
      by (cases "db_createOrder env od w")
    from db_createOrder_effect [OF s]
    have "(Orders w' = Orders w \<and> OrderItems w' = OrderItems w \<and> (\<exists>e. res = Inl e))
          \<or> (\<exists>row new. Orders w' = Orders w @ [row] \<and> OrderItems w' = OrderItems w @ new
                \<and> id' row \<notin> set (map id' (Orders w))
                \<and> orderNumber row \<notin> set (map orderNumber (Orders w))
                \<and> (\<forall>i\<in>set new. orderId i = id' row)
                \<and> distinct (map item_id new)
                \<and> (\<forall>i\<in>set new. item_id i \<notin> set (map item_id (OrderItems w)))
                \<and> customerId row = d_customerId od \<and> customerEmail row = d_customerEmail od
                \<and> status row = d_status od \<and> orderNumber row = d_orderNumber od
                \<and> (\<exists>its. res = Inr (Some (with_items (read_order_row row) its))))"
      by (rule conjunct2)
    then show ?thesis
    proof (elim disjE exE conjE, goal_cases)
      case (1 e)
      then show ?case using s by (intro exI [of _ "[]"]) simp
    next
      case (2 row new its)
      then show ?case using s by (intro exI [of _ new]) simp
    qed
  qed
  from createOrder_world [of env bus u body w] consider
      "snd (createOrder env bus u body w) = w"
    | od where "OrderItems (snd (createOrder env bus u body w)) = OrderItems (snd (db_createOrder env od w))"
    by auto
  then show ?thesis
  proof cases
    case 1
    then show ?thesis by (intro exI [of _ "[]"]) simp
  next
    case 2
    then show ?thesis using a [of od] by simp
  qed
qed


section \<open>Handlers as runs of store statements\<close>


















section \<open>The admin's set-status operation\<close>




section \<open>Uniqueness of the order number\<close>




section \<open>What the status update leaves unchanged\<close>

text \<open>
  Claim C10. The store's update-status operation leaves the table of items and the number
  and order of the orders unchanged; an order with another id is unchanged, and the order
  with the given id differs from its old row in \<^verbatim>\<open>status\<close> and \<^verbatim>\<open>updatedAt\<close> at most.
  Every request handler leaves the items that are in the store where they are and as they
  are: a create appends items of an order id that was not in the store, the other four
  handlers leave the table of items unchanged.
\<close>

theorem updateOrderStatus_frame:
  "OrderItems (snd (db_updateOrderStatus env oid st w)) = OrderItems w
 \<and> length (Orders (snd (db_updateOrderStatus env oid st w))) = length (Orders w)
 \<and> (\<forall>i < length (Orders w).
      (id' (Orders w ! i) \<noteq> oid \<longrightarrow>
         Orders (snd (db_updateOrderStatus env oid st w)) ! i = Orders w ! i)
    \<and> (Orders (snd (db_updateOrderStatus env oid st w)) ! i)
         \<lparr>status := status (Orders w ! i), updatedAt := updatedAt (Orders w ! i)\<rparr> = Orders w ! i)
 \<and> (\<exists>new. OrderItems (snd (handle env bus u req w)) = OrderItems w @ new
        \<and> (\<forall>i\<in>set new. orderId i \<notin> set (map id' (Orders w))))
 \<and> ((\<forall>body. req \<noteq> POST_orders body) \<longrightarrow>
      OrderItems (snd (handle env bus u req w)) = OrderItems w)"
proof -
  have a: "OrderItems (snd (db_updateOrderStatus env oid st w)) = OrderItems w"
    "length (Orders (snd (db_updateOrderStatus env oid st w))) = length (Orders w)"
    by simp_all
  have b: "(id' (Orders w ! i) \<noteq> oid \<longrightarrow>
         Orders (snd (db_updateOrderStatus env oid st w)) ! i = Orders w ! i)
    \<and> (Orders (snd (db_updateOrderStatus env oid st w)) ! i)
         \<lparr>status := status (Orders w ! i), updatedAt := updatedAt (Orders w ! i)\<rparr> = Orders w ! i"
    if "i < length (Orders w)" for i
    using that by simp
  have c: "OrderItems (snd (handle env bus u req w)) = OrderItems w"
    if "\<forall>body. req \<noteq> POST_orders body"
    using that by (cases req) simp_all
  have d: "\<exists>new. OrderItems (snd (handle env bus u req w)) = OrderItems w @ new
        \<and> (\<forall>i\<in>set new. orderId i \<notin> set (map id' (Orders w)))"
  proof (cases "\<exists>body. req = POST_orders body")
    case True
    then show ?thesis using createOrder_items [of env bus u _ w] by auto
  next
    case False
    then have "OrderItems (snd (handle env bus u req w)) = OrderItems w @ []" using c by simp
    then show ?thesis by (intro exI [of _ "[]"]) simp
  qed
  from a b c d show ?thesis by blast
qed

theorem updateOrderStatus_frame_witness:
  "0 < length (Orders (store_a Pending)) \<and> id' (Orders (store_a Pending) ! 0) \<noteq> ''zz'' \<and>
   Orders (snd (db_updateOrderStatus env0 ''zz'' Shipped (store_a Pending))) ! 0 =
     Orders (store_a Pending) ! 0 \<and>
   (Orders (snd (db_updateOrderStatus env0 ''a1'' Shipped (store_a Pending))) ! 0)
      \<lparr>status := status (Orders (store_a Pending) ! 0),
       updatedAt := updatedAt (Orders (store_a Pending) ! 0)\<rparr> = Orders (store_a Pending) ! 0 \<and>
   OrderItems (snd (handle env0 bus_up (Some alice) (PATCH_cancel ''a1'') (store_a Pending))) =
     OrderItems (store_a Pending)"
proof -
  have h1: "0 < length (Orders (store_a Pending))" by (simp add: store_a_def)
  have h2: "id' (Orders (store_a Pending) ! 0) \<noteq> ''zz''" by (simp add: store_a_def row_a_def)
  have h3: "\<forall>body. PATCH_cancel ''a1'' \<noteq> POST_orders body" by simp
  have a: "Orders (snd (db_updateOrderStatus env0 ''zz'' Shipped (store_a Pending))) ! 0 =
     Orders (store_a Pending) ! 0"
    using updateOrderStatus_frame [of env0 "''zz''" Shipped "store_a Pending" bus_up "Some alice"
        "PATCH_cancel ''a1''"] h1 h2
    by blast
  have b: "(Orders (snd (db_updateOrderStatus env0 ''a1'' Shipped (store_a Pending))) ! 0)
      \<lparr>status := status (Orders (store_a Pending) ! 0),
       updatedAt := updatedAt (Orders (store_a Pending) ! 0)\<rparr> = Orders (store_a Pending) ! 0"
    using updateOrderStatus_frame [of env0 "''a1''" Shipped "store_a Pending" bus_up "Some alice"
        "PATCH_cancel ''a1''"] h1
    by blast
  have c: "OrderItems (snd (handle env0 bus_up (Some alice) (PATCH_cancel ''a1'') (store_a Pending))) =
     OrderItems (store_a Pending)"
    using updateOrderStatus_frame [of env0 "''a1''" Shipped "store_a Pending" bus_up "Some alice"
        "PATCH_cancel ''a1''"] h3
    by blast
  from h1 h2 a b c show ?thesis by blast
qed


section \<open>Listing the orders of the caller\<close>










text \<open>The handler does answer with a page for every valid query within the range of the store.\<close>

lemma getOrders_returns:
  assumes "pool w" "user_id u \<noteq> []" "validate_queryParams q = Inr (page, pageSize)"
      and "0 < page" "0 < pageSize" "pageSize \<le> 100" "(page - 1) * pageSize < 2 ^ 31"
  shows "\<exists>orders pg w'. getOrders u q w = (Sent 200 (JOrders orders pg), w')"
proof -
  have n: "\<not> (page - 1) * pageSize < 0" using assms(4,5) by (simp add: not_less)
  then have c: "int32 ((page - 1) * pageSize)" "int32 pageSize"
    using assms(5,6,7) by (simp_all add: int32_def)
  show ?thesis using assms(1,2,3,5) c n
    by (simp add: getOrders_def db_getOrdersByCustomer_def Let_def split: prod.splits)
qed

end
